theory Spec2Isabelle
  imports Main
begin

section \<open>The device and format model read by the actions\<close>

text \<open>
  The actions of \<^verbatim>\<open>blivet/deviceaction.py\<close> operate on device and format objects that
  are shared and mutated in place. Objects live in a store and are named by their
  address; an attribute that may hold \<^verbatim>\<open>None\<close> (a format's type, its UUID) has an
  option type.
  Sizes are Python numbers that are only compared and assigned, modelled as \<open>int\<close>.
\<close>

type_synonym ref = nat

datatype error =
    ValueError string
  | MultipathMemberError string
  | BackendError string

text \<open>
  The attributes of a \<^verbatim>\<open>DeviceFormat\<close> object that the actions read or assign.
  \<open>fmt_minSize\<close> and \<open>fmt_maxSize\<close> are the size bounds of the format, which the format
  class checks a new target size against.
\<close>

record DeviceFormat =
  fmt_type :: "string option"
  fmt_exists :: bool
  fmt_resizable :: bool
  fmt_currentSize :: int
  fmt_targetSize :: int
  fmt_minSize :: int
  fmt_maxSize :: int
  fmt_uuid :: "string option"
  partedFlag :: "nat option"
  partedSystem :: "string option"

text \<open>
  The classes that \<^verbatim>\<open>isinstance\<close> tells apart, with the attributes only they have:
  \<^verbatim>\<open>disk\<close> and \<^verbatim>\<open>partedPartition.number\<close> of a partition, \<^verbatim>\<open>vg\<close> and
  \<^verbatim>\<open>singlePV\<close> of a logical volume.
\<close>

datatype device_class =
    OtherDevice
  | PartitionDevice (disk: ref) (number: int)
  | LVMLogicalVolumeDevice (vg: ref) (singlePV: bool)

text \<open>
  The attributes of a \<^verbatim>\<open>StorageDevice\<close> object that the actions read or assign;
  \<open>dev_size\<close> is its \<^verbatim>\<open>size\<close>, \<open>flags\<close> the partition flags that \<^verbatim>\<open>setFlag\<close> and
  \<^verbatim>\<open>unsetFlag\<close> change. A device holds a format object at every moment: \<open>format\<close> is the
  address of that object.
\<close>

record StorageDevice =
  dev_id :: nat
  dev_class :: device_class
  path :: string
  sysfsPath :: string
  exists :: bool
  resizable :: bool
  currentSize :: int
  minSize :: int
  maxSize :: int
  targetSize :: int
  dev_size :: int
  format :: ref
  flags :: "nat set"
  partedPartition_system :: "string option"
  deviceLinks :: "string list"

datatype log_record =
    LogError string ref
  | LogMethodCall string ref

text \<open>
  The store: the device objects, the format objects, the \<^verbatim>\<open>dependsOn\<close> relation of the
  devices (a method of the device classes, taken as given), the counter behind
  \<^verbatim>\<open>util.ObjectID\<close>, the next unused format address and the log.
\<close>

record store =
  devices :: "ref \<Rightarrow> StorageDevice"
  formats :: "ref \<Rightarrow> DeviceFormat"
  dependsOn :: "ref \<Rightarrow> ref \<Rightarrow> bool"
  id_counter :: nat
  fmt_counter :: ref
  logged :: "log_record list"

section \<open>Actions\<close>

definition ACTION_TYPE_NONE :: nat where "ACTION_TYPE_NONE = 0"
definition ACTION_TYPE_DESTROY :: nat where "ACTION_TYPE_DESTROY = 1000"
definition ACTION_TYPE_RESIZE :: nat where "ACTION_TYPE_RESIZE = 500"
definition ACTION_TYPE_CREATE :: nat where "ACTION_TYPE_CREATE = 100"

definition ACTION_OBJECT_NONE :: nat where "ACTION_OBJECT_NONE = 0"
definition ACTION_OBJECT_FORMAT :: nat where "ACTION_OBJECT_FORMAT = 1"
definition ACTION_OBJECT_DEVICE :: nat where "ACTION_OBJECT_DEVICE = 2"

definition RESIZE_SHRINK :: nat where "RESIZE_SHRINK = 88"
definition RESIZE_GROW :: nat where "RESIZE_GROW = 89"

text \<open>
  The six concrete action classes. Every action has the \<^verbatim>\<open>id\<close> given by
  \<^verbatim>\<open>util.ObjectID\<close> (\<open>aid\<close>) and its operand \<^verbatim>\<open>device\<close>; the resize actions have
  \<^verbatim>\<open>dir\<close> and the saved size, the format create and destroy actions the saved format.
\<close>

datatype DeviceAction =
    ActionCreateDevice (aid: nat) (device: ref)
  | ActionDestroyDevice (aid: nat) (device: ref)
  | ActionResizeDevice (aid: nat) (device: ref) (dir: nat) (origsize: int)
  | ActionCreateFormat (aid: nat) (device: ref) (origFormat: ref)
  | ActionDestroyFormat (aid: nat) (device: ref) (origFormat: ref)
  | ActionResizeFormat (aid: nat) (device: ref) (dir: nat) (origSize: int)

text \<open>The class attributes \<^verbatim>\<open>type\<close> and \<^verbatim>\<open>obj\<close>.\<close>

fun atype :: "DeviceAction \<Rightarrow> nat" where
  "atype (ActionCreateDevice _ _) = ACTION_TYPE_CREATE"
| "atype (ActionDestroyDevice _ _) = ACTION_TYPE_DESTROY"
| "atype (ActionResizeDevice _ _ _ _) = ACTION_TYPE_RESIZE"
| "atype (ActionCreateFormat _ _ _) = ACTION_TYPE_CREATE"
| "atype (ActionDestroyFormat _ _ _) = ACTION_TYPE_DESTROY"
| "atype (ActionResizeFormat _ _ _ _) = ACTION_TYPE_RESIZE"

fun obj :: "DeviceAction \<Rightarrow> nat" where
  "obj (ActionCreateDevice _ _) = ACTION_OBJECT_DEVICE"
| "obj (ActionDestroyDevice _ _) = ACTION_OBJECT_DEVICE"
| "obj (ActionResizeDevice _ _ _ _) = ACTION_OBJECT_DEVICE"
| "obj (ActionCreateFormat _ _ _) = ACTION_OBJECT_FORMAT"
| "obj (ActionDestroyFormat _ _ _) = ACTION_OBJECT_FORMAT"
| "obj (ActionResizeFormat _ _ _ _) = ACTION_OBJECT_FORMAT"

definition isDestroy :: "DeviceAction \<Rightarrow> bool" where
  "isDestroy a = (atype a = ACTION_TYPE_DESTROY)"

definition isCreate :: "DeviceAction \<Rightarrow> bool" where
  "isCreate a = (atype a = ACTION_TYPE_CREATE)"

definition isResize :: "DeviceAction \<Rightarrow> bool" where
  "isResize a = (atype a = ACTION_TYPE_RESIZE)"

text \<open>\<^verbatim>\<open>and\<close> reads \<^verbatim>\<open>self.dir\<close> only on a resize action, the only kind that has it.\<close>

definition isShrink :: "DeviceAction \<Rightarrow> bool" where
  "isShrink a = (if atype a = ACTION_TYPE_RESIZE then dir a = RESIZE_SHRINK else False)"

definition isGrow :: "DeviceAction \<Rightarrow> bool" where
  "isGrow a = (if atype a = ACTION_TYPE_RESIZE then dir a = RESIZE_GROW else False)"

definition isDevice :: "DeviceAction \<Rightarrow> bool" where
  "isDevice a = (obj a = ACTION_OBJECT_DEVICE)"

definition isFormat :: "DeviceAction \<Rightarrow> bool" where
  "isFormat a = (obj a = ACTION_OBJECT_FORMAT)"

text \<open>
  The property \<^verbatim>\<open>format\<close>: the current format of the operand device, except for
  \<^verbatim>\<open>ActionDestroyFormat\<close>, which overrides it with the format saved at construction.
\<close>

fun action_format :: "store \<Rightarrow> DeviceAction \<Rightarrow> ref" where
  "action_format s (ActionDestroyFormat _ _ f) = f"
| "action_format s a = format (devices s (device a))"

definition isinstance_PartitionDevice :: "StorageDevice \<Rightarrow> bool" where
  "isinstance_PartitionDevice d =
     (case dev_class d of PartitionDevice _ _ \<Rightarrow> True | _ \<Rightarrow> False)"

definition isinstance_LVMLogicalVolumeDevice :: "StorageDevice \<Rightarrow> bool" where
  "isinstance_LVMLogicalVolumeDevice d =
     (case dev_class d of LVMLogicalVolumeDevice _ _ \<Rightarrow> True | _ \<Rightarrow> False)"

subsection \<open>\<^verbatim>\<open>requires\<close> and \<^verbatim>\<open>obsoletes\<close>\<close>

definition DeviceAction_requires :: "store \<Rightarrow> DeviceAction \<Rightarrow> DeviceAction \<Rightarrow> bool" where
  "DeviceAction_requires s self action = False"

definition DeviceAction_obsoletes :: "store \<Rightarrow> DeviceAction \<Rightarrow> DeviceAction \<Rightarrow> bool" where
  "DeviceAction_obsoletes s self action =
     (dev_id (devices s (device self)) = dev_id (devices s (device action)) \<and>
      atype self = atype action \<and>
      obj self = obj action \<and>
      aid self > aid action)"

definition ActionCreateDevice_requires :: "store \<Rightarrow> DeviceAction \<Rightarrow> DeviceAction \<Rightarrow> bool" where
  "ActionCreateDevice_requires s self action =
     (if dependsOn s (device self) (device action) then True
      else if isCreate action \<and> isDevice action \<and>
              isinstance_PartitionDevice (devices s (device self)) \<and>
              isinstance_PartitionDevice (devices s (device action)) \<and>
              disk (dev_class (devices s (device self))) =
                disk (dev_class (devices s (device action)))
      then (let selfNum = number (dev_class (devices s (device self)));
                otherNum = number (dev_class (devices s (device action)))
            in if selfNum > otherNum then True else False)
      else if isCreate action \<and> isDevice action \<and>
              isinstance_LVMLogicalVolumeDevice (devices s (device self)) \<and>
              isinstance_LVMLogicalVolumeDevice (devices s (device action)) \<and>
              vg (dev_class (devices s (device self))) =
                vg (dev_class (devices s (device action))) \<and>
              singlePV (dev_class (devices s (device action))) \<and>
              \<not> singlePV (dev_class (devices s (device self)))
      then True
      else False)"

definition ActionDestroyDevice_requires :: "store \<Rightarrow> DeviceAction \<Rightarrow> DeviceAction \<Rightarrow> bool" where
  "ActionDestroyDevice_requires s self action =
     (if dependsOn s (device action) (device self) \<and> isDestroy action then True
      else if isDestroy action \<and> isDevice action \<and>
              isinstance_PartitionDevice (devices s (device self)) \<and>
              isinstance_PartitionDevice (devices s (device action)) \<and>
              disk (dev_class (devices s (device self))) =
                disk (dev_class (devices s (device action)))
      then (let selfNum = number (dev_class (devices s (device self)));
                otherNum = number (dev_class (devices s (device action)))
            in if selfNum < otherNum then True else False)
      else if isDestroy action \<and> isFormat action \<and>
              dev_id (devices s (device action)) = dev_id (devices s (device self))
      then True
      else False)"

definition ActionDestroyDevice_obsoletes :: "store \<Rightarrow> DeviceAction \<Rightarrow> DeviceAction \<Rightarrow> bool" where
  "ActionDestroyDevice_obsoletes s self action =
     (if dev_id (devices s (device action)) = dev_id (devices s (device self))
      then (if aid self \<ge> aid action \<and> \<not> exists (devices s (device self)) then True
            else if aid self > aid action \<and>
                    exists (devices s (device self)) \<and>
                    \<not> (isDestroy action \<and> isFormat action) then True
            else False)
      else False)"

definition ActionResizeDevice_requires :: "store \<Rightarrow> DeviceAction \<Rightarrow> DeviceAction \<Rightarrow> bool" where
  "ActionResizeDevice_requires s self action =
     (if isResize action
      then (if dev_id (devices s (device self)) = dev_id (devices s (device action)) \<and>
               dir self = dir action \<and>
               isFormat action \<and> isShrink self then True
            else if isGrow action \<and> dependsOn s (device self) (device action) then True
            else if isShrink action \<and> dependsOn s (device action) (device self) then True
            else False)
      else False)"

definition ActionCreateFormat_requires :: "store \<Rightarrow> DeviceAction \<Rightarrow> DeviceAction \<Rightarrow> bool" where
  "ActionCreateFormat_requires s self action =
     ((dependsOn s (device self) (device action) \<and>
       \<not> (isDestroy action \<and> isDevice action)) \<or>
      (isDevice action \<and> (isCreate action \<or> isResize action) \<and>
       dev_id (devices s (device self)) = dev_id (devices s (device action))))"

definition ActionCreateFormat_obsoletes :: "store \<Rightarrow> DeviceAction \<Rightarrow> DeviceAction \<Rightarrow> bool" where
  "ActionCreateFormat_obsoletes s self action =
     (dev_id (devices s (device self)) = dev_id (devices s (device action)) \<and>
      obj self = obj action \<and>
      \<not> (isDestroy action \<and> fmt_exists (formats s (action_format s action))) \<and>
      aid self > aid action)"

definition ActionDestroyFormat_requires :: "store \<Rightarrow> DeviceAction \<Rightarrow> DeviceAction \<Rightarrow> bool" where
  "ActionDestroyFormat_requires s self action =
     (dependsOn s (device action) (device self) \<and> isDestroy action)"

definition ActionDestroyFormat_obsoletes :: "store \<Rightarrow> DeviceAction \<Rightarrow> DeviceAction \<Rightarrow> bool" where
  "ActionDestroyFormat_obsoletes s self action =
     (dev_id (devices s (device self)) = dev_id (devices s (device action)) \<and>
      obj self = obj action \<and>
      (aid self > aid action \<or>
       (aid self = aid action \<and> \<not> fmt_exists (formats s (action_format s self)))) \<and>
      \<not> (fmt_exists (formats s (action_format s action)) \<and>
         \<not> fmt_exists (formats s (action_format s self))))"

definition ActionResizeFormat_requires :: "store \<Rightarrow> DeviceAction \<Rightarrow> DeviceAction \<Rightarrow> bool" where
  "ActionResizeFormat_requires s self action =
     (if isResize action
      then (if dev_id (devices s (device self)) = dev_id (devices s (device action)) \<and>
               dir self = dir action \<and>
               isDevice action \<and> isGrow self then True
            else if isShrink action \<and> dependsOn s (device action) (device self) then True
            else if isGrow action \<and> dependsOn s (device self) (device action) then True
            else False)
      else False)"


section \<open>Construction and cancellation\<close>

text \<open>
  A constructor or method returns its result (\<open>Inl\<close> the exception raised) together with
  the store it leaves behind, so that what an action mutated before raising stays
  visible. An assignment to an attribute gives it the assigned value, except for the two
  attributes whose setters are modelled below.
\<close>

definition update_device :: "store \<Rightarrow> ref \<Rightarrow> (StorageDevice \<Rightarrow> StorageDevice) \<Rightarrow> store" where
  "update_device s dev f = s\<lparr>devices := (devices s)(dev := f (devices s dev))\<rparr>"

definition update_format :: "store \<Rightarrow> ref \<Rightarrow> (DeviceFormat \<Rightarrow> DeviceFormat) \<Rightarrow> store" where
  "update_format s fm g = s\<lparr>formats := (formats s)(fm := g (formats s fm))\<rparr>"

text \<open>
  Modelled from the spec: \<^verbatim>\<open>util.ObjectID.__init__\<close> is not among the sources. The spec
  gives every action an id that is "monotonically increasing, assigned at construction,
  globally unique": the next value of a counter.
\<close>

definition ObjectID_init :: "store \<Rightarrow> nat \<times> store" where
  "ObjectID_init s = (id_counter s, s\<lparr>id_counter := Suc (id_counter s)\<rparr>)"

text \<open>
  \<^verbatim>\<open>DeviceAction.__init__\<close> takes the id and stores the device; its \<^verbatim>\<open>isinstance\<close>
  check cannot fail on a \<open>ref\<close> into \<open>devices\<close>. It returns the new id.
\<close>

definition DeviceAction_init :: "store \<Rightarrow> nat \<times> store" where
  "DeviceAction_init s = ObjectID_init s"

text \<open>A format address is allocated when it was handed out before: every new format
  object gets the address \<open>fmt_counter\<close>.\<close>

definition allocated :: "store \<Rightarrow> ref \<Rightarrow> bool" where
  "allocated s fm = (fm < fmt_counter s)"

text \<open>
  Modelled from the spec: the class \<^verbatim>\<open>DeviceFormat\<close> is not among the sources. The format
  for "no format" has no type, does not exist and cannot be resized.
\<close>

definition blank_format :: DeviceFormat where
  "blank_format =
     \<lparr>fmt_type = None, fmt_exists = False, fmt_resizable = False, fmt_currentSize = 0,
      fmt_targetSize = 0, fmt_minSize = 0, fmt_maxSize = 0, fmt_uuid = None,
      partedFlag = None, partedSystem = None\<rparr>"

text \<open>
  Modelled from the spec: \<^verbatim>\<open>formats.getFormat\<close> is not among the sources.
  \<^verbatim>\<open>getFormat(None)\<close> makes a new format object for "no format" and returns it.
\<close>

definition getFormat_None :: "store \<Rightarrow> ref \<times> store" where
  "getFormat_None s =
     (fmt_counter s,
      s\<lparr>formats := (formats s)(fmt_counter s := blank_format),
        fmt_counter := Suc (fmt_counter s)\<rparr>)"

text \<open>
  Modelled from the spec: the setter of \<^verbatim>\<open>StorageDevice.format\<close> is not among the sources.
  The spec has a device without a format hold an \<open>explicit "no format" placeholder\<close>, and
  the source makes that placeholder with \<^verbatim>\<open>getFormat(None)\<close> and reads
  \<^verbatim>\<open>device.format.type\<close> and \<^verbatim>\<open>action.format.exists\<close> without a guard: assigning a
  format object stores it, assigning \<^verbatim>\<open>None\<close> stores a new blank format.
\<close>

definition StorageDevice_set_format :: "store \<Rightarrow> ref \<Rightarrow> ref option \<Rightarrow> store" where
  "StorageDevice_set_format s dev fmt =
     (case fmt of
        Some fm \<Rightarrow> update_device s dev (\<lambda>d. d\<lparr>format := fm\<rparr>)
      | None \<Rightarrow>
          (let (blank, s1) = getFormat_None s
           in update_device s1 dev (\<lambda>d. d\<lparr>format := blank\<rparr>)))"

text \<open>
  Modelled from the spec: the setter of \<^verbatim>\<open>DeviceFormat.targetSize\<close> is not among the
  sources. The spec has the requested size of a resize lie between the format's minimum
  and maximum, "violations are rejected at construction", and the docstring of
  \<^verbatim>\<open>DeviceAction\<close> has the \<^verbatim>\<open>DeviceFormat\<close> classes "verify that the requested
  modifications are reasonable and raise an exception if not": a size below the minimum or
  above the maximum raises ValueError and assigns nothing, as the checks of
  \<^verbatim>\<open>ActionResizeDevice.__init__\<close> do for a device; any other size is assigned.
\<close>

definition DeviceFormat_set_targetSize :: "store \<Rightarrow> ref \<Rightarrow> int \<Rightarrow> (error + unit) \<times> store" where
  "DeviceFormat_set_targetSize s fm newsize =
     (if newsize < fmt_minSize (formats s fm)
      then (Inl (ValueError ''new size is too small''), s)
      else if newsize > fmt_maxSize (formats s fm)
      then (Inl (ValueError ''new size is too large''), s)
      else (Inr (), update_format s fm (\<lambda>f. f\<lparr>fmt_targetSize := newsize\<rparr>)))"

definition ActionCreateDevice_init :: "store \<Rightarrow> ref \<Rightarrow> (error + DeviceAction) \<times> store" where
  "ActionCreateDevice_init s dev =
     (if exists (devices s dev) then (Inl (ValueError ''device already exists''), s)
      else (let (i, s1) = DeviceAction_init s in (Inr (ActionCreateDevice i dev), s1)))"

definition ActionDestroyDevice_init :: "store \<Rightarrow> ref \<Rightarrow> (error + DeviceAction) \<times> store" where
  "ActionDestroyDevice_init s dev =
     (let (i, s1) = DeviceAction_init s in (Inr (ActionDestroyDevice i dev), s1))"

definition ActionResizeDevice_init ::
  "store \<Rightarrow> ref \<Rightarrow> int \<Rightarrow> (error + DeviceAction) \<times> store" where
  "ActionResizeDevice_init s dev newsize =
     (if \<not> resizable (devices s dev) then (Inl (ValueError ''device is not resizable''), s)
      else if currentSize (devices s dev) = newsize
      then (Inl (ValueError ''new size same as old size''), s)
      else if newsize < minSize (devices s dev)
      then (Inl (ValueError ''new size is too small''), s)
      else if newsize > maxSize (devices s dev)
      then (Inl (ValueError ''new size is too large''), s)
      else (let (i, s1) = DeviceAction_init s;
                dr = (if newsize > currentSize (devices s1 dev) then RESIZE_GROW
                      else RESIZE_SHRINK);
                saved = (if targetSize (devices s1 dev) > 0 then targetSize (devices s1 dev)
                         else dev_size (devices s1 dev))
            in (Inr (ActionResizeDevice i dev dr saved),
                update_device s1 dev (\<lambda>d. d\<lparr>targetSize := newsize\<rparr>))))"

text \<open>The argument \<^verbatim>\<open>format\<close> is a format object or \<^verbatim>\<open>None\<close> (the default).\<close>

definition ActionCreateFormat_init ::
  "store \<Rightarrow> ref \<Rightarrow> ref option \<Rightarrow> (error + DeviceAction) \<times> store" where
  "ActionCreateFormat_init s dev fmt =
     (let (i, s1) = DeviceAction_init s in
      case fmt of
        Some fm \<Rightarrow>
          (Inr (ActionCreateFormat i dev (format (devices s1 dev))),
           StorageDevice_set_format s1 dev (Some fm))
      | None \<Rightarrow>
          (let (blank, s2) = getFormat_None s1
           in (Inr (ActionCreateFormat i dev blank), s2)))"

definition ActionDestroyFormat_init :: "store \<Rightarrow> ref \<Rightarrow> (error + DeviceAction) \<times> store" where
  "ActionDestroyFormat_init s dev =
     (let (i, s1) = DeviceAction_init s
      in (Inr (ActionDestroyFormat i dev (format (devices s1 dev))),
          StorageDevice_set_format s1 dev None))"

definition ActionResizeFormat_init ::
  "store \<Rightarrow> ref \<Rightarrow> int \<Rightarrow> (error + DeviceAction) \<times> store" where
  "ActionResizeFormat_init s dev newsize =
     (if \<not> fmt_resizable (formats s (format (devices s dev)))
      then (Inl (ValueError ''format is not resizable''), s)
      else if fmt_currentSize (formats s (format (devices s dev))) = newsize
      then (Inl (ValueError ''new size same as old size''), s)
      else (let (i, s1) = DeviceAction_init s;
                dr = (if newsize > fmt_currentSize (formats s1 (format (devices s1 dev)))
                      then RESIZE_GROW else RESIZE_SHRINK);
                saved = fmt_targetSize (formats s1 (format (devices s1 dev)))
            in case DeviceFormat_set_targetSize s1 (format (devices s1 dev)) newsize of
                 (Inl e, s2) \<Rightarrow> (Inl e, s2)
               | (Inr _, s2) \<Rightarrow> (Inr (ActionResizeFormat i dev dr saved), s2)))"

text \<open>
  \<^verbatim>\<open>cancel\<close>: the four overriding methods, and \<^verbatim>\<open>DeviceAction.cancel\<close> (\<^verbatim>\<open>pass\<close>) for
  the device create and destroy actions. \<^verbatim>\<open>ActionResizeFormat.cancel\<close> assigns to the
  current format of the device.
\<close>

fun cancel :: "store \<Rightarrow> DeviceAction \<Rightarrow> (error + unit) \<times> store" where
  "cancel s (ActionResizeDevice _ dev _ saved) =
     (Inr (), update_device s dev (\<lambda>d. d\<lparr>targetSize := saved\<rparr>))"
| "cancel s (ActionCreateFormat _ dev saved) =
     (Inr (), StorageDevice_set_format s dev (Some saved))"
| "cancel s (ActionDestroyFormat _ dev saved) =
     (Inr (), StorageDevice_set_format s dev (Some saved))"
| "cancel s (ActionResizeFormat _ dev _ saved) =
     DeviceFormat_set_targetSize s (format (devices s dev)) saved"
| "cancel s (ActionCreateDevice _ _) = (Inr (), s)"
| "cancel s (ActionDestroyDevice _ _) = (Inr (), s)"

section \<open>Executing a format creation\<close>

text \<open>
  What \<^verbatim>\<open>ActionCreateFormat.execute\<close> calls outside \<^verbatim>\<open>deviceaction.py\<close> is taken as
  given: the device's \<^verbatim>\<open>setup\<close>, the keys of parted's \<^verbatim>\<open>partitionFlag\<close> and its
  \<^verbatim>\<open>PARTITION_LBA\<close>, the disk label's \<^verbatim>\<open>commitToDisk\<close>, the format's \<^verbatim>\<open>create\<close>,
  \<^verbatim>\<open>udev_settle\<close>, the device's \<^verbatim>\<open>updateSysfsPath\<close> and \<^verbatim>\<open>udev_get_block_device\<close>.
  Each call that can raise returns its result and the store it leaves. A udev descriptor
  carries what \<^verbatim>\<open>udev_device_get_uuid\<close> and \<^verbatim>\<open>udev_device_get_symlinks\<close> read from it;
  a lookup result that Python takes for false is \<open>None\<close>.
\<close>

record udev_info =
  udev_device_get_uuid :: "string option"
  udev_device_get_symlinks :: "string list"

record backend =
  device_setup :: "store \<Rightarrow> ref \<Rightarrow> (error + unit) \<times> store"
  partitionFlag_keys :: "nat list"
  PARTITION_LBA :: nat
  commitToDisk :: "store \<Rightarrow> ref \<Rightarrow> (error + unit) \<times> store"
  format_create :: "store \<Rightarrow> ref \<Rightarrow> ref \<Rightarrow> (error + unit) \<times> store"
  udev_settle :: "store \<Rightarrow> (error + unit) \<times> store"
  updateSysfsPath :: "store \<Rightarrow> ref \<Rightarrow> (error + unit) \<times> store"
  udev_get_block_device :: "store \<Rightarrow> string \<Rightarrow> udev_info option"

text \<open>
  The branch for a partition: every flag except the LBA flag and the format's own flag
  is unset, the format's flag and partition type are set, and the disk label is committed.
  \<^verbatim>\<open>unsetFlag\<close> and \<^verbatim>\<open>setFlag\<close> are updates of the device's set of flags.
\<close>

definition unset_flags :: "backend \<Rightarrow> nat option \<Rightarrow> StorageDevice \<Rightarrow> StorageDevice" where
  "unset_flags env keep d =
     foldl (\<lambda>d' flag. if flag = PARTITION_LBA env \<or> Some flag = keep then d'
                        else d'\<lparr>flags := flags d' - {flag}\<rparr>)
       d (partitionFlag_keys env)"

definition partition_flags :: "backend \<Rightarrow> store \<Rightarrow> DeviceAction \<Rightarrow> (error + unit) \<times> store" where
  "partition_flags env s self =
     (if isinstance_PartitionDevice (devices s (device self))
      then (let s1 = update_device s (device self)
                       (unset_flags env (partedFlag (formats s (action_format s self))));
                s2 = (case partedFlag (formats s1 (action_format s1 self)) of
                        None \<Rightarrow> s1
                      | Some flag \<Rightarrow>
                          update_device s1 (device self)
                            (\<lambda>d. d\<lparr>flags := insert flag (flags d)\<rparr>));
                s3 = (case partedSystem (formats s2 (action_format s2 self)) of
                        None \<Rightarrow> s2
                      | Some sys \<Rightarrow>
                          update_device s2 (device self)
                            (\<lambda>d. d\<lparr>partedPartition_system := Some sys\<rparr>))
            in commitToDisk env s3 (disk (dev_class (devices s3 (device self)))))
      else (Inr (), s))"

text \<open>
  Lines 446 to 469 of \<^verbatim>\<open>execute\<close>: the progress message, \<^verbatim>\<open>setup\<close>, the partition branch, the format's \<^verbatim>\<open>create\<close>, \<^verbatim>\<open>udev_settle\<close>
  and \<^verbatim>\<open>updateSysfsPath\<close>. The first exception ends the method.
\<close>

definition create_on_device :: "backend \<Rightarrow> store \<Rightarrow> DeviceAction \<Rightarrow> (error + unit) \<times> store" where
  "create_on_device env s self =
     (case device_setup env s (device self) of
        (Inl e, s1) \<Rightarrow> (Inl e, s1)
      | (Inr _, s1) \<Rightarrow>
          (case partition_flags env s1 self of
             (Inl e, s2) \<Rightarrow> (Inl e, s2)
           | (Inr _, s2) \<Rightarrow>
               (case format_create env s2 (format (devices s2 (device self))) (device self) of
                  (Inl e, s3) \<Rightarrow> (Inl e, s3)
                | (Inr _, s3) \<Rightarrow>
                    (case udev_settle env s3 of
                       (Inl e, s4) \<Rightarrow> (Inl e, s4)
                     | (Inr _, s4) \<Rightarrow> updateSysfsPath env s4 (device self)))))"

text \<open>
  Lines 470 to 480: the lookup of the device in udev and what is recorded from it.
\<close>

definition record_udev_info :: "backend \<Rightarrow> store \<Rightarrow> DeviceAction \<Rightarrow> (error + unit) \<times> store" where
  "record_udev_info env s self =
     (case udev_get_block_device env s (sysfsPath (devices s (device self))) of
        Some info \<Rightarrow>
          (let s1 = (if fmt_type (formats s (format (devices s (device self)))) \<noteq> Some ''btrfs''
                     then update_format s (format (devices s (device self)))
                            (\<lambda>f. f\<lparr>fmt_uuid := udev_device_get_uuid info\<rparr>)
                     else s)
           in (Inr (),
               update_device s1 (device self)
                 (\<lambda>d. d\<lparr>deviceLinks := udev_device_get_symlinks info\<rparr>)))
      | None \<Rightarrow>
          if fmt_type (formats s (format (devices s (device self)))) \<noteq> Some ''tmpfs''
          then (Inr (),
                s\<lparr>logged := logged s @
                   [LogError ''udev lookup failed for device: %s'' (device self)]\<rparr>)
          else (Inr (), s))"

definition ActionCreateFormat_execute ::
  "backend \<Rightarrow> store \<Rightarrow> DeviceAction \<Rightarrow> (error + unit) \<times> store" where
  "ActionCreateFormat_execute env s self =
     (case create_on_device env s self of
        (Inl e, s1) \<Rightarrow> (Inl e, s1)
      | (Inr _, s1) \<Rightarrow> record_udev_info env s1 self)"

section \<open>Multipath member formats\<close>

text \<open>
  \<^verbatim>\<open>MultipathMember.create\<close> and \<^verbatim>\<open>destroy\<close> of \<^verbatim>\<open>formats/multipath.py\<close> take any
  positional and keyword arguments, log the call (\<^verbatim>\<open>log_method_call\<close> reads the
  attributes \<^verbatim>\<open>device\<close>, \<^verbatim>\<open>type\<close> and \<^verbatim>\<open>status\<close> of the format) and raise.
\<close>

datatype pyval = PyNone | PyBool bool | PyInt int | PyStr string

definition MultipathMember_create ::
  "store \<Rightarrow> ref \<Rightarrow> pyval list \<Rightarrow> (string \<times> pyval) list \<Rightarrow> (error + unit) \<times> store" where
  "MultipathMember_create s self args kwargs =
     (Inl (MultipathMemberError ''creation of multipath members is non-sense''),
      s\<lparr>logged := logged s @ [LogMethodCall ''create'' self]\<rparr>)"

definition MultipathMember_destroy ::
  "store \<Rightarrow> ref \<Rightarrow> pyval list \<Rightarrow> (string \<times> pyval) list \<Rightarrow> (error + unit) \<times> store" where
  "MultipathMember_destroy s self args kwargs =
     (Inl (MultipathMemberError ''destruction of multipath members is non-sense''),
      s\<lparr>logged := logged s @ [LogMethodCall ''destroy'' self]\<rparr>)"

section \<open>Example stores\<close>

text \<open>A resizable filesystem of size 100 with bounds 50 and 200.\<close>

definition ext4_format :: "bool \<Rightarrow> DeviceFormat" where
  "ext4_format ex =
     \<lparr>fmt_type = Some ''ext4'', fmt_exists = ex, fmt_resizable = True, fmt_currentSize = 100,
      fmt_targetSize = 100, fmt_minSize = 50, fmt_maxSize = 200, fmt_uuid = None,
      partedFlag = None, partedSystem = None\<rparr>"

definition plain_device :: "nat \<Rightarrow> bool \<Rightarrow> StorageDevice" where
  "plain_device i ex =
     \<lparr>dev_id = i, dev_class = OtherDevice, path = ''/dev/sdx'', sysfsPath = ''/sys/block/sdx'',
      exists = ex, resizable = True, currentSize = 100, minSize = 50, maxSize = 200,
      targetSize = 0, dev_size = 100, format = i, flags = {},
      partedPartition_system = None, deviceLinks = []\<rparr>"

text \<open>Every device at address \<open>r\<close> has id \<open>r\<close> and the format at address \<open>r\<close>;
  the devices at even addresses exist, the others are planned only.\<close>

definition demo_store :: store where
  "demo_store =
     \<lparr>devices = (\<lambda>r. plain_device r (even r)),
      formats = (\<lambda>r. ext4_format (even r)),
      dependsOn = (\<lambda>a b. False),
      id_counter = 10, fmt_counter = 100, logged = []\<rparr>"

text \<open>A disk at address 0 with the partitions 1 to 9 on it, numbered by their address.\<close>

definition partition_store :: store where
  "partition_store =
     demo_store\<lparr>devices := (\<lambda>r. (plain_device r True)
        \<lparr>dev_class := (if r = 0 then OtherDevice else PartitionDevice 0 (int r))\<rparr>)\<rparr>"

text \<open>As \<open>demo_store\<close>, with every device at an address above 0 depending on the device
  below it.\<close>

definition stacked_store :: store where
  "stacked_store = demo_store\<lparr>dependsOn := (\<lambda>a b. b < a)\<rparr>"

text \<open>Partition 2 of \<open>partition_store\<close> with the flags 1, 2 and 7 set, holding a format
  that asks for flag 2 and the partition type \<open>ext2\<close>.\<close>

definition flagged_store :: store where
  "flagged_store =
     partition_store\<lparr>devices := (\<lambda>r. (devices partition_store r)\<lparr>flags := {1, 2, 7}\<rparr>),
       formats := (\<lambda>r. (ext4_format False)\<lparr>partedFlag := Some 2,
                                             partedSystem := Some ''ext2''\<rparr>)\<rparr>"

text \<open>As \<open>demo_store\<close>, but every format has the target size 0, below its minimum.\<close>

definition unset_target_store :: store where
  "unset_target_store =
     demo_store\<lparr>formats := (\<lambda>r. (ext4_format (even r))\<lparr>fmt_targetSize := 0\<rparr>)\<rparr>"


definition cancelled_destroy_store :: store where
  "cancelled_destroy_store =
     (let s1 = snd (ActionDestroyFormat_init demo_store 2);
          s2 = snd (ActionCreateFormat_init s1 2 (Some 1));
          s3 = snd (ActionDestroyFormat_init s2 2)
      in snd (cancel s3 (ActionDestroyFormat 10 2 2)))"

text \<open>A backend where every call succeeds, \<^verbatim>\<open>create\<close> makes the format exist and the
  udev lookup returns \<open>found\<close>; stores whose formats all have the type \<open>ty\<close>, before
  and after the format 3 was created.\<close>

definition demo_backend :: "udev_info option \<Rightarrow> backend" where
  "demo_backend found =
     \<lparr>device_setup = (\<lambda>s dev. (Inr (), s)),
      partitionFlag_keys = [1, 2, 3, 7],
      PARTITION_LBA = 7,
      commitToDisk = (\<lambda>s dk. (Inr (), s)),
      format_create = (\<lambda>s fm dev. (Inr (), update_format s fm (\<lambda>f. f\<lparr>fmt_exists := True\<rparr>))),
      udev_settle = (\<lambda>s. (Inr (), s)),
      updateSysfsPath = (\<lambda>s dev. (Inr (), s)),
      udev_get_block_device = (\<lambda>s p. found)\<rparr>"

definition typed_store :: "string \<Rightarrow> store" where
  "typed_store ty = demo_store\<lparr>formats := (\<lambda>r. (ext4_format False)\<lparr>fmt_type := Some ty\<rparr>)\<rparr>"

definition created_store :: "string \<Rightarrow> store" where
  "created_store ty =
     demo_store\<lparr>formats := (\<lambda>r. (ext4_format (r = 3))\<lparr>fmt_type := Some ty\<rparr>)\<rparr>"

definition demo_info :: udev_info where
  "demo_info = \<lparr>udev_device_get_uuid = Some ''1234-abcd'',
                udev_device_get_symlinks = [''/dev/disk/by-uuid/1234-abcd'']\<rparr>"

section \<open>Auxiliary facts\<close>

lemmas action_consts =
  ACTION_TYPE_NONE_def ACTION_TYPE_DESTROY_def ACTION_TYPE_RESIZE_def ACTION_TYPE_CREATE_def
  ACTION_OBJECT_NONE_def ACTION_OBJECT_FORMAT_def ACTION_OBJECT_DEVICE_def
  RESIZE_SHRINK_def RESIZE_GROW_def

lemmas action_props =
  isDestroy_def isCreate_def isResize_def isShrink_def isGrow_def isDevice_def isFormat_def



lemma ActionResizeFormat_init_out_of_bounds:
  assumes "n < fmt_minSize (formats s (format (devices s dev))) \<or>
           fmt_maxSize (formats s (format (devices s dev))) < n"
  shows "\<exists>msg. fst (ActionResizeFormat_init s dev n) = Inl (ValueError msg)"
    and "devices (snd (ActionResizeFormat_init s dev n)) = devices s"
    and "formats (snd (ActionResizeFormat_init s dev n)) = formats s"
  using assms
  by (auto simp: ActionResizeFormat_init_def DeviceAction_init_def ObjectID_init_def
        DeviceFormat_set_targetSize_def)

lemma ActionCreateFormat_init_Some:
  "ActionCreateFormat_init s dev (Some new) =
     (Inr (ActionCreateFormat (id_counter s) dev (format (devices s dev))),
      update_device (s\<lparr>id_counter := Suc (id_counter s)\<rparr>) dev (\<lambda>d. d\<lparr>format := new\<rparr>))"
  by (simp add: ActionCreateFormat_init_def DeviceAction_init_def ObjectID_init_def
        StorageDevice_set_format_def)

lemma ActionDestroyFormat_init_eq:
  "ActionDestroyFormat_init s dev =
     (Inr (ActionDestroyFormat (id_counter s) dev (format (devices s dev))),
      update_device
        (s\<lparr>id_counter := Suc (id_counter s),
           formats := (formats s)(fmt_counter s := blank_format),
           fmt_counter := Suc (fmt_counter s)\<rparr>)
        dev (\<lambda>d. d\<lparr>format := fmt_counter s\<rparr>))"
  by (simp add: ActionDestroyFormat_init_def DeviceAction_init_def ObjectID_init_def
        StorageDevice_set_format_def getFormat_None_def)





lemma ActionCreateFormat_init_None:
  "ActionCreateFormat_init s dev None =
     (Inr (ActionCreateFormat (id_counter s) dev (fmt_counter s)),
      s\<lparr>id_counter := Suc (id_counter s),
        formats := (formats s)(fmt_counter s := blank_format),
        fmt_counter := Suc (fmt_counter s)\<rparr>)"
  by (simp add: ActionCreateFormat_init_def DeviceAction_init_def ObjectID_init_def getFormat_None_def)


lemma demo_create_on_device:
  "create_on_device (demo_backend found) (typed_store ty) (ActionCreateFormat 5 3 7) =
     (Inr (), created_store ty)"
  by (simp add: create_on_device_def partition_flags_def isinstance_PartitionDevice_def
        demo_backend_def typed_store_def created_store_def demo_store_def plain_device_def
        update_format_def ext4_format_def fun_eq_iff)

text \<open>The partition branch of \<^verbatim>\<open>execute\<close> on partition 2 of \<open>flagged_store\<close>: flag 1 is
  unset, the LBA flag 7 and the format's flag 2 stay, and the partition type is set.\<close>

lemma partition_flags_example:
  "fst (partition_flags (demo_backend None) flagged_store (ActionCreateFormat 5 2 7)) = Inr () \<and>
   flags (devices (snd (partition_flags (demo_backend None) flagged_store
     (ActionCreateFormat 5 2 7))) 2) = {2, 7} \<and>
   partedPartition_system (devices (snd (partition_flags (demo_backend None) flagged_store
     (ActionCreateFormat 5 2 7))) 2) = Some ''ext2''"
  by (auto simp: partition_flags_def unset_flags_def isinstance_PartitionDevice_def
        update_device_def demo_backend_def flagged_store_def partition_store_def
        demo_store_def plain_device_def ext4_format_def)

section \<open>Obsoletion by a device destroy action\<close>

text \<open>
  C3. For an \<^verbatim>\<open>ActionDestroyDevice\<close> \<open>a\<close> and an action \<open>b\<close> on the same device (the
  same device id): if the device does not exist, \<open>a\<close> obsoletes \<open>b\<close> exactly when the id
  of \<open>b\<close> is lower than or equal to the id of \<open>a\<close>, so \<open>a\<close> obsoletes itself; if the
  device exists, \<open>a\<close> obsoletes \<open>b\<close> exactly when \<open>b\<close> has a strictly lower id and is not
  a format destroy action. On different devices \<open>a\<close> never obsoletes \<open>b\<close>.
\<close>

theorem ActionDestroyDevice_obsoletes_cases:
  fixes s :: store and i d :: nat and b :: DeviceAction
  defines "a \<equiv> ActionDestroyDevice i d"
  shows
  "(dev_id (devices s (device b)) = dev_id (devices s (device a)) \<and>
      \<not> exists (devices s (device a))
      \<longrightarrow> ActionDestroyDevice_obsoletes s a b = (aid b \<le> aid a)) \<and>
   (\<not> exists (devices s (device a)) \<longrightarrow> ActionDestroyDevice_obsoletes s a a) \<and>
   (dev_id (devices s (device b)) = dev_id (devices s (device a)) \<and>
      exists (devices s (device a))
      \<longrightarrow> ActionDestroyDevice_obsoletes s a b =
            (aid b < aid a \<and> \<not> (isDestroy b \<and> isFormat b))) \<and>
   (dev_id (devices s (device b)) \<noteq> dev_id (devices s (device a))
      \<longrightarrow> \<not> ActionDestroyDevice_obsoletes s a b)"
  by (auto simp: ActionDestroyDevice_obsoletes_def a_def)

theorem ActionDestroyDevice_obsoletes_cases_witness:
  "\<not> exists (devices demo_store 1) \<and>
   ActionDestroyDevice_obsoletes demo_store (ActionDestroyDevice 7 1) (ActionCreateDevice 3 1) \<and>
   ActionDestroyDevice_obsoletes demo_store (ActionDestroyDevice 7 1) (ActionDestroyDevice 7 1) \<and>
   exists (devices demo_store 2) \<and>
   ActionDestroyDevice_obsoletes demo_store (ActionDestroyDevice 7 2) (ActionResizeDevice 3 2 RESIZE_GROW 0) \<and>
   \<not> ActionDestroyDevice_obsoletes demo_store (ActionDestroyDevice 7 2) (ActionDestroyFormat 3 2 5) \<and>
   dev_id (devices demo_store 4) \<noteq> dev_id (devices demo_store 2) \<and>
   \<not> ActionDestroyDevice_obsoletes demo_store (ActionDestroyDevice 7 2) (ActionCreateDevice 3 4)"
  using ActionDestroyDevice_obsoletes_cases
      [where s = demo_store and b = "ActionCreateDevice 3 1" and d = 1 and i = 7]
    ActionDestroyDevice_obsoletes_cases
      [where s = demo_store and b = "ActionResizeDevice 3 2 RESIZE_GROW 0" and d = 2 and i = 7]
    ActionDestroyDevice_obsoletes_cases
      [where s = demo_store and b = "ActionDestroyFormat 3 2 5" and d = 2 and i = 7]
    ActionDestroyDevice_obsoletes_cases
      [where s = demo_store and b = "ActionCreateDevice 3 4" and d = 2 and i = 7]
  by (simp add: demo_store_def plain_device_def action_props action_consts)

section \<open>Obsoletion by the format actions\<close>

text \<open>
  C5. For an \<^verbatim>\<open>ActionCreateFormat\<close> \<open>a\<close> and any action \<open>b\<close>, \<open>a.obsoletes(b)\<close> is true
  exactly when \<open>b\<close> is a format action on the same device with a strictly lower id and
  \<open>b\<close> is not a destroy action whose format exists.
\<close>

theorem ActionCreateFormat_obsoletes_iff:
  "ActionCreateFormat_obsoletes s (ActionCreateFormat i d saved) b =
     (isFormat b \<and>
      dev_id (devices s (device b)) = dev_id (devices s d) \<and>
      aid b < i \<and>
      \<not> (isDestroy b \<and> fmt_exists (formats s (action_format s b))))"
  by (auto simp: ActionCreateFormat_obsoletes_def isFormat_def)

theorem ActionCreateFormat_obsoletes_iff_witness:
  "ActionCreateFormat_obsoletes demo_store (ActionCreateFormat 7 2 4)
     (ActionDestroyFormat 3 2 1) \<and>
   \<not> ActionCreateFormat_obsoletes demo_store (ActionCreateFormat 7 2 4)
     (ActionDestroyFormat 3 2 6) \<and>
   ActionCreateFormat_obsoletes demo_store (ActionCreateFormat 7 2 4)
     (ActionResizeFormat 3 2 RESIZE_GROW 0) \<and>
   \<not> ActionCreateFormat_obsoletes demo_store (ActionCreateFormat 7 2 4)
     (ActionDestroyDevice 3 2) \<and>
   \<not> ActionCreateFormat_obsoletes demo_store (ActionCreateFormat 7 2 4)
     (ActionResizeFormat 9 2 RESIZE_GROW 0) \<and>
   \<not> ActionCreateFormat_obsoletes demo_store (ActionCreateFormat 7 2 4)
     (ActionResizeFormat 3 4 RESIZE_GROW 0)"
  using ActionCreateFormat_obsoletes_iff
      [where s = demo_store and b = "ActionDestroyFormat 3 2 1" and i = 7 and d = 2 and saved = 4]
    ActionCreateFormat_obsoletes_iff
      [where s = demo_store and b = "ActionDestroyFormat 3 2 6" and i = 7 and d = 2 and saved = 4]
    ActionCreateFormat_obsoletes_iff
      [where s = demo_store and b = "ActionResizeFormat 3 2 RESIZE_GROW 0" and i = 7 and d = 2
         and saved = 4]
    ActionCreateFormat_obsoletes_iff
      [where s = demo_store and b = "ActionDestroyDevice 3 2" and i = 7 and d = 2 and saved = 4]
    ActionCreateFormat_obsoletes_iff
      [where s = demo_store and b = "ActionResizeFormat 9 2 RESIZE_GROW 0" and i = 7 and d = 2
         and saved = 4]
    ActionCreateFormat_obsoletes_iff
      [where s = demo_store and b = "ActionResizeFormat 3 4 RESIZE_GROW 0" and i = 7 and d = 2
         and saved = 4]
  by (simp add: demo_store_def plain_device_def ext4_format_def action_props action_consts)

text \<open>
  C4, at the input where the code leaves it. On device 2, whose format 2 exists, a format
  destroy action (id 10), the creation of the new format 1 (id 11) and a second format
  destroy action (id 12, which saves the new format 1) are constructed, then the first
  destroy action is cancelled. The action with id 11 is a format action with a lower id
  on the same device and not a destroy action, yet \<^verbatim>\<open>obsoletes\<close> of the action with id 12
  returns false for it: the current format of the device exists and the saved format of
  the action with id 12 does not.
\<close>

theorem ActionDestroyFormat_obsoletes_skips_create:
  "fst (ActionDestroyFormat_init demo_store 2) = Inr (ActionDestroyFormat 10 2 2) \<and>
   fst (ActionCreateFormat_init (snd (ActionDestroyFormat_init demo_store 2)) 2 (Some 1)) =
     Inr (ActionCreateFormat 11 2 100) \<and>
   fst (ActionDestroyFormat_init
     (snd (ActionCreateFormat_init (snd (ActionDestroyFormat_init demo_store 2)) 2 (Some 1))) 2) =
     Inr (ActionDestroyFormat 12 2 1) \<and>
   isFormat (ActionCreateFormat 11 2 100) \<and>
   \<not> isDestroy (ActionCreateFormat 11 2 100) \<and>
   \<not> ActionDestroyFormat_obsoletes cancelled_destroy_store (ActionDestroyFormat 12 2 1)
     (ActionCreateFormat 11 2 100)"
  by (simp add: cancelled_destroy_store_def ActionDestroyFormat_obsoletes_def
        ActionCreateFormat_init_Some ActionDestroyFormat_init_eq StorageDevice_set_format_def
        update_device_def demo_store_def plain_device_def ext4_format_def
        action_props action_consts)

text \<open>
  What \<^verbatim>\<open>ActionDestroyFormat.obsoletes\<close> computes for a format action \<open>b\<close> on the same
  device: with a lower id, \<open>b\<close> is obsoleted unless its format exists and the saved
  format of \<open>a\<close> does not; with a higher id it is not obsoleted; and \<open>a\<close> obsoletes itself
  exactly when its saved format does not exist.
\<close>

theorem ActionDestroyFormat_obsoletes_cases:
  fixes s :: store and b :: DeviceAction and i d fa :: nat
  defines "a \<equiv> ActionDestroyFormat i d fa"
  assumes "isFormat b"
    and "dev_id (devices s (device b)) = dev_id (devices s (device a))"
  shows "(aid b < aid a \<longrightarrow>
            ActionDestroyFormat_obsoletes s a b =
              (\<not> (fmt_exists (formats s (action_format s b)) \<and> \<not> fmt_exists (formats s fa)))) \<and>
         (aid a < aid b \<longrightarrow> \<not> ActionDestroyFormat_obsoletes s a b) \<and>
         ActionDestroyFormat_obsoletes s a a = (\<not> fmt_exists (formats s fa))"
  using assms
  by (auto simp: ActionDestroyFormat_obsoletes_def isFormat_def)

theorem ActionDestroyFormat_obsoletes_cases_witness:
  "isFormat (ActionDestroyFormat 3 2 4) \<and>
   \<not> ActionDestroyFormat_obsoletes demo_store (ActionDestroyFormat 7 2 1)
     (ActionDestroyFormat 3 2 4) \<and>
   ActionDestroyFormat_obsoletes demo_store (ActionDestroyFormat 7 2 1)
     (ActionDestroyFormat 3 2 5) \<and>
   ActionDestroyFormat_obsoletes demo_store (ActionDestroyFormat 7 2 6)
     (ActionDestroyFormat 3 2 4) \<and>
   ActionDestroyFormat_obsoletes demo_store (ActionDestroyFormat 7 2 1)
     (ActionDestroyFormat 7 2 1) \<and>
   \<not> ActionDestroyFormat_obsoletes demo_store (ActionDestroyFormat 7 2 6)
     (ActionDestroyFormat 7 2 6)"
  using ActionDestroyFormat_obsoletes_cases
      [where s = demo_store and b = "ActionDestroyFormat 3 2 4" and i = 7 and d = 2 and fa = 1]
    ActionDestroyFormat_obsoletes_cases
      [where s = demo_store and b = "ActionDestroyFormat 3 2 5" and i = 7 and d = 2 and fa = 1]
    ActionDestroyFormat_obsoletes_cases
      [where s = demo_store and b = "ActionDestroyFormat 3 2 4" and i = 7 and d = 2 and fa = 6]
  by (simp add: demo_store_def plain_device_def ext4_format_def action_props action_consts)

section \<open>Ordering of resize actions\<close>

text \<open>
  C6. An \<^verbatim>\<open>ActionResizeDevice\<close> \<open>a\<close> requires \<open>b\<close> exactly when \<open>b\<close> is a resize and
  either \<open>b\<close> is a format resize of the same device in the same direction and \<open>a\<close> is a
  shrink, or \<open>b\<close> grows a device that the device of \<open>a\<close> depends on, or \<open>b\<close> shrinks a
  device that depends on the device of \<open>a\<close>. An \<^verbatim>\<open>ActionResizeFormat\<close> \<open>a'\<close> requires
  \<open>b\<close> exactly when \<open>b\<close> is a resize and either \<open>b\<close> is a device resize of the same device
  in the same direction and \<open>a'\<close> is a grow, or \<open>b\<close> shrinks a device that depends on the
  device of \<open>a'\<close>, or \<open>b\<close> grows a device that the device of \<open>a'\<close> depends on.
\<close>

theorem resize_requires_iff:
  fixes s :: store and b :: DeviceAction
    and i d dr i' d' dr' :: nat and saved saved' :: int
  defines "a \<equiv> ActionResizeDevice i d dr saved"
    and "a' \<equiv> ActionResizeFormat i' d' dr' saved'"
  shows
  "ActionResizeDevice_requires s a b =
     (isResize b \<and>
      ((isFormat b \<and> dev_id (devices s (device b)) = dev_id (devices s (device a)) \<and>
        dir b = dir a \<and> isShrink a) \<or>
       (isGrow b \<and> dependsOn s (device a) (device b)) \<or>
       (isShrink b \<and> dependsOn s (device b) (device a)))) \<and>
   ActionResizeFormat_requires s a' b =
     (isResize b \<and>
      ((isDevice b \<and> dev_id (devices s (device b)) = dev_id (devices s (device a')) \<and>
        dir b = dir a' \<and> isGrow a') \<or>
       (isShrink b \<and> dependsOn s (device b) (device a')) \<or>
       (isGrow b \<and> dependsOn s (device a') (device b))))"
  by (auto simp: ActionResizeDevice_requires_def ActionResizeFormat_requires_def a_def a'_def)

theorem resize_requires_iff_witness:
  "ActionResizeDevice_requires stacked_store (ActionResizeDevice 5 2 RESIZE_SHRINK 0)
     (ActionResizeFormat 6 2 RESIZE_SHRINK 0) \<and>
   ActionResizeDevice_requires stacked_store (ActionResizeDevice 5 2 RESIZE_GROW 0)
     (ActionResizeDevice 6 1 RESIZE_GROW 0) \<and>
   ActionResizeFormat_requires stacked_store (ActionResizeFormat 5 2 RESIZE_GROW 0)
     (ActionResizeDevice 6 2 RESIZE_GROW 0) \<and>
   \<not> ActionResizeFormat_requires stacked_store (ActionResizeFormat 5 2 RESIZE_SHRINK 0)
     (ActionResizeDevice 6 2 RESIZE_SHRINK 0)"
  using resize_requires_iff
      [where s = stacked_store and b = "ActionResizeFormat 6 2 RESIZE_SHRINK 0"
         and i = 5 and d = 2 and dr = RESIZE_SHRINK and saved = 0]
    resize_requires_iff
      [where s = stacked_store and b = "ActionResizeDevice 6 1 RESIZE_GROW 0"
         and i = 5 and d = 2 and dr = RESIZE_GROW and saved = 0]
    resize_requires_iff
      [where s = stacked_store and b = "ActionResizeDevice 6 2 RESIZE_GROW 0"
         and i' = 5 and d' = 2 and dr' = RESIZE_GROW and saved' = 0]
    resize_requires_iff
      [where s = stacked_store and b = "ActionResizeDevice 6 2 RESIZE_SHRINK 0"
         and i' = 5 and d' = 2 and dr' = RESIZE_SHRINK and saved' = 0]
  by (simp add: stacked_store_def demo_store_def plain_device_def action_props action_consts)

section \<open>Ordering of partition actions\<close>

text \<open>
  C7. For two partitions of the same disk, neither depending on the other, with partition
  numbers \<open>n\<close> below \<open>m\<close>: the create action of the higher-numbered partition requires the
  create action of the lower-numbered one and not the other way round, and the destroy
  action of the lower-numbered partition requires the destroy action of the
  higher-numbered one.
\<close>

theorem partition_actions_order:
  assumes "dev_class (devices s p) = PartitionDevice dk n"
    and "dev_class (devices s q) = PartitionDevice dk m"
    and "n < m"
    and "\<not> dependsOn s p q" and "\<not> dependsOn s q p"
  shows "ActionCreateDevice_requires s (ActionCreateDevice j q) (ActionCreateDevice i p) \<and>
         \<not> ActionCreateDevice_requires s (ActionCreateDevice i p) (ActionCreateDevice j q) \<and>
         ActionDestroyDevice_requires s (ActionDestroyDevice i' p) (ActionDestroyDevice j' q)"
  using assms
  by (simp add: ActionCreateDevice_requires_def ActionDestroyDevice_requires_def
        isinstance_PartitionDevice_def action_props)

theorem partition_actions_order_witness:
  "dev_class (devices partition_store 1) = PartitionDevice 0 1 \<and>
   dev_class (devices partition_store 2) = PartitionDevice 0 2 \<and>
   (1::int) < 2 \<and>
   \<not> dependsOn partition_store 1 2 \<and> \<not> dependsOn partition_store 2 1 \<and>
   ActionCreateDevice_requires partition_store (ActionCreateDevice 4 2) (ActionCreateDevice 3 1) \<and>
   \<not> ActionCreateDevice_requires partition_store (ActionCreateDevice 3 1) (ActionCreateDevice 4 2) \<and>
   ActionDestroyDevice_requires partition_store (ActionDestroyDevice 5 1) (ActionDestroyDevice 6 2)"
  using partition_actions_order
      [where s = partition_store and p = 1 and q = 2 and dk = 0 and n = 1 and m = 2
         and i = 3 and j = 4 and i' = 5 and j' = 6]
  by (simp add: partition_store_def demo_store_def plain_device_def)

section \<open>Validation at construction\<close>

text \<open>
  C1. Constructing an \<^verbatim>\<open>ActionResizeDevice\<close> with a size equal to the device's current
  size, below its minimum size or above its maximum size raises ValueError, makes no
  action and leaves the store as it was. Constructing an \<^verbatim>\<open>ActionResizeFormat\<close> with a
  size equal to the format's current size does the same. Constructing an
  \<^verbatim>\<open>ActionResizeFormat\<close> with a size below the format's minimum size or above its
  maximum size raises ValueError and makes no action, and no device and no format is
  changed: the format class refuses the size when the constructor assigns it (only the
  id that \<^verbatim>\<open>DeviceAction.__init__\<close> took before is spent).
\<close>

theorem resize_init_rejects:
  "(currentSize (devices s dev) = n \<or> n < minSize (devices s dev) \<or> maxSize (devices s dev) < n
      \<longrightarrow> (\<exists>msg. ActionResizeDevice_init s dev n = (Inl (ValueError msg), s))) \<and>
   (fmt_currentSize (formats s (format (devices s dev))) = n
      \<longrightarrow> (\<exists>msg. ActionResizeFormat_init s dev n = (Inl (ValueError msg), s))) \<and>
   (n < fmt_minSize (formats s (format (devices s dev))) \<or>
    fmt_maxSize (formats s (format (devices s dev))) < n
      \<longrightarrow> (\<exists>msg. fst (ActionResizeFormat_init s dev n) = Inl (ValueError msg)) \<and>
          devices (snd (ActionResizeFormat_init s dev n)) = devices s \<and>
          formats (snd (ActionResizeFormat_init s dev n)) = formats s)"
proof (intro conjI impI)
  assume "currentSize (devices s dev) = n \<or> n < minSize (devices s dev) \<or>
          maxSize (devices s dev) < n"
  then show "\<exists>msg. ActionResizeDevice_init s dev n = (Inl (ValueError msg), s)"
    by (auto simp: ActionResizeDevice_init_def)
next
  assume "fmt_currentSize (formats s (format (devices s dev))) = n"
  then show "\<exists>msg. ActionResizeFormat_init s dev n = (Inl (ValueError msg), s)"
    by (auto simp: ActionResizeFormat_init_def)
next
  assume out: "n < fmt_minSize (formats s (format (devices s dev))) \<or>
               fmt_maxSize (formats s (format (devices s dev))) < n"
  show "\<exists>msg. fst (ActionResizeFormat_init s dev n) = Inl (ValueError msg)"
    by (rule ActionResizeFormat_init_out_of_bounds(1) [OF out])
  show "devices (snd (ActionResizeFormat_init s dev n)) = devices s"
    by (rule ActionResizeFormat_init_out_of_bounds(2) [OF out])
  show "formats (snd (ActionResizeFormat_init s dev n)) = formats s"
    by (rule ActionResizeFormat_init_out_of_bounds(3) [OF out])
qed

theorem resize_init_rejects_witness:
  "currentSize (devices demo_store 2) = 100 \<and>
   ActionResizeDevice_init demo_store 2 100 =
     (Inl (ValueError ''new size same as old size''), demo_store) \<and>
   10 < minSize (devices demo_store 2) \<and>
   ActionResizeDevice_init demo_store 2 10 =
     (Inl (ValueError ''new size is too small''), demo_store) \<and>
   maxSize (devices demo_store 2) < 500 \<and>
   ActionResizeDevice_init demo_store 2 500 =
     (Inl (ValueError ''new size is too large''), demo_store) \<and>
   fmt_currentSize (formats demo_store (format (devices demo_store 2))) = 100 \<and>
   ActionResizeFormat_init demo_store 2 100 =
     (Inl (ValueError ''new size same as old size''), demo_store) \<and>
   10 < fmt_minSize (formats demo_store (format (devices demo_store 2))) \<and>
   fst (ActionResizeFormat_init demo_store 2 10) = Inl (ValueError ''new size is too small'') \<and>
   devices (snd (ActionResizeFormat_init demo_store 2 10)) = devices demo_store \<and>
   formats (snd (ActionResizeFormat_init demo_store 2 10)) = formats demo_store \<and>
   fmt_maxSize (formats demo_store (format (devices demo_store 2))) < 500 \<and>
   fst (ActionResizeFormat_init demo_store 2 500) = Inl (ValueError ''new size is too large'') \<and>
   formats (snd (ActionResizeFormat_init demo_store 2 500)) = formats demo_store"
  using resize_init_rejects [where s = demo_store and dev = 2 and n = 100]
    resize_init_rejects [where s = demo_store and dev = 2 and n = 10]
    resize_init_rejects [where s = demo_store and dev = 2 and n = 500]
  by (simp add: ActionResizeDevice_init_def ActionResizeFormat_init_def DeviceAction_init_def
        ObjectID_init_def DeviceFormat_set_targetSize_def
        demo_store_def plain_device_def ext4_format_def)

section \<open>Cancelling a freshly constructed action\<close>



text \<open>
  Where the saved target size of a format lies outside the format's bounds, the format
  class refuses it in \<^verbatim>\<open>cancel\<close> as it would in a constructor: in \<open>unset_target_store\<close>
  the resize of format 2 to 70 is constructed, and cancelling it raises ValueError and
  leaves the target size 70.
\<close>

lemma cancel_ResizeFormat_refused:
  "fst (ActionResizeFormat_init unset_target_store 2 70) =
     Inr (ActionResizeFormat 10 2 RESIZE_SHRINK 0) \<and>
   fst (cancel (snd (ActionResizeFormat_init unset_target_store 2 70))
     (ActionResizeFormat 10 2 RESIZE_SHRINK 0)) = Inl (ValueError ''new size is too small'') \<and>
   fmt_targetSize (formats (snd (cancel (snd (ActionResizeFormat_init unset_target_store 2 70))
     (ActionResizeFormat 10 2 RESIZE_SHRINK 0))) 2) = 70"
  by (simp add: ActionResizeFormat_init_def DeviceAction_init_def ObjectID_init_def
        DeviceFormat_set_targetSize_def update_format_def unset_target_store_def
        demo_store_def plain_device_def ext4_format_def)


text \<open>
  C9. Constructing an \<^verbatim>\<open>ActionCreateFormat\<close> without a format leaves every device as it
  was, and saves a new blank format (\<^verbatim>\<open>getFormat(None)\<close>) in the action; cancelling the
  action then sets the device's format to that blank format, which is not the format the
  device had before the construction.
\<close>

theorem ActionCreateFormat_without_format:
  assumes "ActionCreateFormat_init s dev None = (r, s1)"
    and "allocated s (format (devices s dev))"
  shows "r = Inr (ActionCreateFormat (id_counter s) dev (fmt_counter s)) \<and>
         devices s1 = devices s \<and>
         formats s1 (fmt_counter s) = blank_format \<and>
         cancel s1 (ActionCreateFormat (id_counter s) dev (fmt_counter s)) =
           (Inr (), update_device s1 dev (\<lambda>d. d\<lparr>format := fmt_counter s\<rparr>)) \<and>
         format (devices (snd (cancel s1
           (ActionCreateFormat (id_counter s) dev (fmt_counter s)))) dev) =
           fmt_counter s \<and>
         format (devices (snd (cancel s1
           (ActionCreateFormat (id_counter s) dev (fmt_counter s)))) dev) \<noteq>
           format (devices s dev)"
  using assms unfolding ActionCreateFormat_init_None
  by (auto simp: update_device_def allocated_def StorageDevice_set_format_def)

theorem ActionCreateFormat_without_format_witness:
  "allocated demo_store (format (devices demo_store 2)) \<and>
   fst (ActionCreateFormat_init demo_store 2 None) = Inr (ActionCreateFormat 10 2 100) \<and>
   format (devices demo_store 2) = 2 \<and>
   format (devices (snd (ActionCreateFormat_init demo_store 2 None)) 2) = 2 \<and>
   format (devices (snd (cancel (snd (ActionCreateFormat_init demo_store 2 None))
     (ActionCreateFormat 10 2 100))) 2) = 100 \<and>
   formats (snd (ActionCreateFormat_init demo_store 2 None)) 100 = blank_format"
  using ActionCreateFormat_without_format
      [where s = demo_store and dev = 2
         and r = "fst (ActionCreateFormat_init demo_store 2 None)"
         and ?s1.0 = "snd (ActionCreateFormat_init demo_store 2 None)"]
  by (simp add: allocated_def ActionCreateFormat_init_None StorageDevice_set_format_def
        update_device_def demo_store_def plain_device_def)

section \<open>The udev lookup after a format creation\<close>

text \<open>
  C8. When the steps of \<^verbatim>\<open>ActionCreateFormat.execute\<close> up to \<^verbatim>\<open>updateSysfsPath\<close> have
  succeeded, with \<open>fm\<close> the format of the device then: if the udev lookup finds no
  descriptor, \<^verbatim>\<open>execute\<close> returns without an exception, leaving the store as it is for
  the format type \<^verbatim>\<open>tmpfs\<close> and adding one error record to the log for every other type;
  if the lookup finds a descriptor, \<^verbatim>\<open>execute\<close> returns without an exception and the
  format's UUID is the descriptor's, except for the type \<^verbatim>\<open>btrfs\<close>, whose UUID stays as
  it was.
\<close>

theorem ActionCreateFormat_execute_lookup:
  fixes i dev fm :: nat and saved :: ref
  defines "a \<equiv> ActionCreateFormat i dev saved"
  assumes "create_on_device env s a = (Inr (), s1)"
    and "format (devices s1 dev) = fm"
  shows "(udev_get_block_device env s1 (sysfsPath (devices s1 dev)) = None \<and>
          fmt_type (formats s1 fm) = Some ''tmpfs''
            \<longrightarrow> ActionCreateFormat_execute env s a = (Inr (), s1)) \<and>
         (udev_get_block_device env s1 (sysfsPath (devices s1 dev)) = None \<and>
          fmt_type (formats s1 fm) \<noteq> Some ''tmpfs''
            \<longrightarrow> ActionCreateFormat_execute env s a =
                  (Inr (), s1\<lparr>logged := logged s1 @
                     [LogError ''udev lookup failed for device: %s'' dev]\<rparr>)) \<and>
         (udev_get_block_device env s1 (sysfsPath (devices s1 dev)) = Some info
            \<longrightarrow> fst (ActionCreateFormat_execute env s a) = Inr () \<and>
                fmt_uuid (formats (snd (ActionCreateFormat_execute env s a)) fm) =
                  (if fmt_type (formats s1 fm) = Some ''btrfs'' then fmt_uuid (formats s1 fm)
                   else udev_device_get_uuid info))"
  using assms
  by (auto simp: ActionCreateFormat_execute_def record_udev_info_def update_format_def
        update_device_def)

theorem ActionCreateFormat_execute_lookup_witness:
  "create_on_device (demo_backend None) (typed_store ''tmpfs'') (ActionCreateFormat 5 3 7) =
     (Inr (), created_store ''tmpfs'') \<and>
   format (devices (created_store ''tmpfs'') 3) = 3 \<and>
   ActionCreateFormat_execute (demo_backend None) (typed_store ''tmpfs'')
     (ActionCreateFormat 5 3 7) = (Inr (), created_store ''tmpfs'') \<and>
   ActionCreateFormat_execute (demo_backend None) (typed_store ''ext4'')
     (ActionCreateFormat 5 3 7) =
     (Inr (), (created_store ''ext4'')\<lparr>logged :=
        [LogError ''udev lookup failed for device: %s'' 3]\<rparr>) \<and>
   fmt_uuid (formats (snd (ActionCreateFormat_execute (demo_backend (Some demo_info))
     (typed_store ''ext4'') (ActionCreateFormat 5 3 7))) 3) = Some ''1234-abcd'' \<and>
   fmt_uuid (formats (snd (ActionCreateFormat_execute (demo_backend (Some demo_info))
     (typed_store ''btrfs'') (ActionCreateFormat 5 3 7))) 3) = None"
proof -
  have fm: "format (devices (created_store ty) 3) = 3" for ty
    by (simp add: created_store_def demo_store_def plain_device_def)
  have ty: "fmt_type (formats (created_store ty) 3) = Some ty" for ty
    by (simp add: created_store_def ext4_format_def)
  have uuid: "fmt_uuid (formats (created_store ty) 3) = None" for ty
    by (simp add: created_store_def ext4_format_def)
  have look: "udev_get_block_device (demo_backend found) s p = found" for found s p
    by (simp add: demo_backend_def)
  have tmpfs: "ActionCreateFormat_execute (demo_backend None) (typed_store ''tmpfs'')
      (ActionCreateFormat 5 3 7) = (Inr (), created_store ''tmpfs'')"
    using ActionCreateFormat_execute_lookup [OF demo_create_on_device fm, of None "''tmpfs''"]
    by (simp add: look ty)
  have ext4: "ActionCreateFormat_execute (demo_backend None) (typed_store ''ext4'')
      (ActionCreateFormat 5 3 7) =
      (Inr (), (created_store ''ext4'')\<lparr>logged :=
         [LogError ''udev lookup failed for device: %s'' 3]\<rparr>)"
    using ActionCreateFormat_execute_lookup [OF demo_create_on_device fm, of None "''ext4''"]
    by (simp add: look ty) (simp add: created_store_def demo_store_def)
  have found: "fmt_uuid (formats (snd (ActionCreateFormat_execute (demo_backend (Some demo_info))
      (typed_store ''ext4'') (ActionCreateFormat 5 3 7))) 3) = Some ''1234-abcd''"
    using ActionCreateFormat_execute_lookup
      [OF demo_create_on_device fm, of "Some demo_info" "''ext4''" demo_info]
    by (simp add: look ty demo_info_def)
  have btrfs: "fmt_uuid (formats (snd (ActionCreateFormat_execute (demo_backend (Some demo_info))
      (typed_store ''btrfs'') (ActionCreateFormat 5 3 7))) 3) = None"
    using ActionCreateFormat_execute_lookup
      [OF demo_create_on_device fm, of "Some demo_info" "''btrfs''" demo_info]
    by (simp add: look ty uuid)
  show ?thesis
    using tmpfs ext4 found btrfs by (simp add: demo_create_on_device fm)
qed

section \<open>Multipath members cannot be created or destroyed\<close>

text \<open>
  C10. For every argument list, \<^verbatim>\<open>MultipathMember.create\<close> and
  \<^verbatim>\<open>MultipathMember.destroy\<close> raise MultipathMemberError, and leave every format and
  every device of the store as it was.
\<close>

theorem MultipathMember_create_destroy_raise:
  "fst (MultipathMember_create s self args kwargs) =
     Inl (MultipathMemberError ''creation of multipath members is non-sense'') \<and>
   formats (snd (MultipathMember_create s self args kwargs)) = formats s \<and>
   devices (snd (MultipathMember_create s self args kwargs)) = devices s \<and>
   fst (MultipathMember_destroy s self args kwargs) =
     Inl (MultipathMemberError ''destruction of multipath members is non-sense'') \<and>
   formats (snd (MultipathMember_destroy s self args kwargs)) = formats s \<and>
   devices (snd (MultipathMember_destroy s self args kwargs)) = devices s"
  by (simp add: MultipathMember_create_def MultipathMember_destroy_def)

theorem MultipathMember_create_destroy_raise_witness:
  "fst (MultipathMember_create demo_store 2 [PyStr ''/dev/sda''] [(''options'', PyNone)]) =
     Inl (MultipathMemberError ''creation of multipath members is non-sense'') \<and>
   formats (snd (MultipathMember_create demo_store 2 [PyStr ''/dev/sda'']
     [(''options'', PyNone)])) = formats demo_store \<and>
   fst (MultipathMember_destroy demo_store 2 [] []) =
     Inl (MultipathMemberError ''destruction of multipath members is non-sense'')"
  using MultipathMember_create_destroy_raise
      [where s = demo_store and self = 2 and args = "[PyStr ''/dev/sda'']"
         and kwargs = "[(''options'', PyNone)]"]
    MultipathMember_create_destroy_raise
      [where s = demo_store and self = 2 and args = "[]" and kwargs = "[]"]
  by simp

end
